theory Spec2Isabelle
  imports Complex_Main
begin

text \<open>
  The repository holds three variants of one form application, each a single React
  component file with the same function names:
  \<^item> \<^verbatim>\<open>src/App.jsx\<close> reads and writes the submissions through a remote endpoint and
    guards none of its requests;
  \<^item> \<^verbatim>\<open>unnamed/part_000\<close> does the same with every request inside \<^verbatim>\<open>try\<close>/\<^verbatim>\<open>catch\<close>;
  \<^item> \<^verbatim>\<open>unnamed/part_001\<close> keeps the submissions in \<^verbatim>\<open>localStorage\<close> under a key made of
    the credentials.
  The functions of \<^verbatim>\<open>src/App.jsx\<close> keep their names here; those of the other two files
  carry the suffixes \<open>_p000\<close> and \<open>_p001\<close> where the name is taken (the local store
  adapter exists in \<^verbatim>\<open>unnamed/part_001\<close> only and keeps its names).

  The \<^verbatim>\<open>useState\<close> cells of \<^verbatim>\<open>App\<close> are a record, and a handler is a function from the
  state it sees to the state it leaves. Handlers run one after the other, each to its end:
  two handlers of \<^verbatim>\<open>src/App.jsx\<close> that overlap at an \<^verbatim>\<open>await\<close> are outside this model.
\<close>

section \<open>JavaScript values\<close>

text \<open>
  A JavaScript string is a sequence of UTF-16 code units. Code units are kept as natural
  numbers (a well-formed string has every unit below 65536), because two builtins used by
  the program tell them apart by value: \<^verbatim>\<open>btoa\<close> refuses a unit above 255 and
  \<^verbatim>\<open>encodeURIComponent\<close> refuses a lone surrogate. \<open>str\<close> turns a literal of the
  theory into such a string.
\<close>

type_synonym jsstring = "nat list"

definition str :: "string \<Rightarrow> jsstring" where
  "str s = map of_char s"

text \<open>
  The values that \<^verbatim>\<open>JSON.parse\<close> and \<^verbatim>\<open>res.json()\<close> hand to the program. An object
  is its list of entries in insertion order. The program never computes with a number.
\<close>

datatype json =
    JNull
  | JBool bool
  | JNum real
  | JStr jsstring
  | JArr "json list"
  | JObj "(jsstring \<times> json) list"

text \<open>The exceptions that the builtins used by the program raise.\<close>

datatype error =
    TypeError
  | SyntaxError
  | URIError
  | InvalidCharacterError
  | QuotaExceededError
  | SecurityError

text \<open>\<^verbatim>\<open>Array.isArray(v)\<close>.\<close>

fun isArray :: "json \<Rightarrow> bool" where
  "isArray (JArr xs) = True"
| "isArray v = False"

section \<open>The builtins \<^verbatim>\<open>btoa\<close> and \<^verbatim>\<open>encodeURIComponent\<close>\<close>

text \<open>
  \<^verbatim>\<open>btoa(s)\<close> reads every code unit of \<open>s\<close> as one byte and returns the Base64 text of
  these bytes; it raises \<^verbatim>\<open>InvalidCharacterError\<close> when a unit is above 255. Three
  bytes give four six-bit digits; a last group of one or two bytes is padded, and the
  padding is digit 64 of the alphabet.
\<close>

definition b64chars :: string where
  "b64chars = ''ABCDEFGHIJKLMNOPQRSTUVWXYZabcdefghijklmnopqrstuvwxyz0123456789+/=''"

fun sextets :: "nat list \<Rightarrow> nat list" where
  "sextets [] = []"
| "sextets [a] = [a div 4, (a mod 4) * 16, 64, 64]"
| "sextets [a, b] = [a div 4, (a mod 4) * 16 + b div 16, (b mod 16) * 4, 64]"
| "sextets (a # b # c # bs) =
     [a div 4, (a mod 4) * 16 + b div 16, (b mod 16) * 4 + c div 64, c mod 64] @ sextets bs"

definition base64 :: "nat list \<Rightarrow> string" where
  "base64 bs = map (\<lambda>i. b64chars ! i) (sextets bs)"

definition btoa :: "jsstring \<Rightarrow> error + jsstring" where
  "btoa s = (if list_ex (\<lambda>c. 255 < c) s then Inl InvalidCharacterError
             else Inr (str (base64 s)))"

text \<open>
  \<^verbatim>\<open>encodeURIComponent(s)\<close> keeps the unreserved characters, writes every other code
  point as the percent-escaped bytes of its UTF-8 form, and raises \<^verbatim>\<open>URIError\<close> on a
  surrogate that is not part of a pair.
\<close>

definition uri_unreserved :: jsstring where
  "uri_unreserved =
     str ''ABCDEFGHIJKLMNOPQRSTUVWXYZabcdefghijklmnopqrstuvwxyz0123456789-_.!~*()'' @ [39]"

definition high_surrogate :: "nat \<Rightarrow> bool" where
  "high_surrogate c \<longleftrightarrow> 0xD800 \<le> c \<and> c \<le> 0xDBFF"

definition low_surrogate :: "nat \<Rightarrow> bool" where
  "low_surrogate c \<longleftrightarrow> 0xDC00 \<le> c \<and> c \<le> 0xDFFF"

definition utf8 :: "nat \<Rightarrow> nat list" where
  "utf8 cp =
     (if cp < 0x80 then [cp]
      else if cp < 0x800 then [0xC0 + cp div 64, 0x80 + cp mod 64]
      else if cp < 0x10000 then
        [0xE0 + cp div 4096, 0x80 + (cp div 64) mod 64, 0x80 + cp mod 64]
      else [0xF0 + cp div 262144, 0x80 + (cp div 4096) mod 64,
            0x80 + (cp div 64) mod 64, 0x80 + cp mod 64])"

definition percent :: "nat \<Rightarrow> jsstring" where
  "percent b = str [CHR ''%'', ''0123456789ABCDEF'' ! (b div 16), ''0123456789ABCDEF'' ! (b mod 16)]"

definition escape :: "nat \<Rightarrow> jsstring" where
  "escape cp = concat (map percent (utf8 cp))"

fun encodeURIComponent :: "jsstring \<Rightarrow> error + jsstring" where
  "encodeURIComponent [] = Inr []"
| "encodeURIComponent [c] =
     (if c \<in> set uri_unreserved then Inr [c]
      else if low_surrogate c \<or> high_surrogate c then Inl URIError
      else Inr (escape c))"
| "encodeURIComponent (c # d # s) =
     (if c \<in> set uri_unreserved then
        (case encodeURIComponent (d # s) of Inl e \<Rightarrow> Inl e | Inr r \<Rightarrow> Inr (c # r))
      else if low_surrogate c then Inl URIError
      else if high_surrogate c then
        (if low_surrogate d then
           (case encodeURIComponent s of
              Inl e \<Rightarrow> Inl e
            | Inr r \<Rightarrow> Inr (escape (0x10000 + (c - 0xD800) * 0x400 + (d - 0xDC00)) @ r))
         else Inl URIError)
      else
        (case encodeURIComponent (d # s) of Inl e \<Rightarrow> Inl e | Inr r \<Rightarrow> Inr (escape c @ r)))"

section \<open>The environment of the program\<close>

text \<open>
  What the program takes from the browser and does not define: whether \<^verbatim>\<open>btoa\<close> is a
  function (\<^verbatim>\<open>typeof btoa === 'function'\<close>), the JSON codec, and the network behind
  \<^verbatim>\<open>fetch\<close>. \<^verbatim>\<open>fetch\<close> either raises (the network failed) or gives a response, whose
  \<^verbatim>\<open>json()\<close> in turn raises or gives the parsed body. \<^verbatim>\<open>JSON.parse\<close> raises
  \<^verbatim>\<open>SyntaxError\<close> on a text that is not JSON.
\<close>

record request =
  url :: jsstring
  http_method :: jsstring
  headers :: "(jsstring \<times> jsstring) list"
  body :: "jsstring option"

record response =
  ok :: bool
  json_body :: "error + json"

record platform =
  btoa_is_function :: bool
  JSON_stringify :: "json \<Rightarrow> jsstring"
  JSON_parse :: "jsstring \<Rightarrow> error + json"
  fetch :: "request \<Rightarrow> error + response"

text \<open>
  The browser's \<^verbatim>\<open>localStorage\<close>: the stored items, whether access to the storage is
  refused (every call raises \<^verbatim>\<open>SecurityError\<close>), and for which key and value the quota is
  exceeded (\<^verbatim>\<open>setItem\<close> raises \<^verbatim>\<open>QuotaExceededError\<close> and stores nothing).
  \<^verbatim>\<open>getItem\<close> gives \<^verbatim>\<open>null\<close>, here \<open>None\<close>, for a key that is not stored.
\<close>

record localStorage =
  items :: "jsstring \<rightharpoonup> jsstring"
  blocked :: bool
  full :: "jsstring \<Rightarrow> jsstring \<Rightarrow> bool"

definition getItem :: "localStorage \<Rightarrow> jsstring \<Rightarrow> error + jsstring option" where
  "getItem ls key = (if blocked ls then Inl SecurityError else Inr (items ls key))"

definition setItem :: "localStorage \<Rightarrow> jsstring \<Rightarrow> jsstring \<Rightarrow> error + localStorage" where
  "setItem ls key v =
     (if blocked ls then Inl SecurityError
      else if full ls key v then Inl QuotaExceededError
      else Inr (ls\<lparr>items := (items ls)(key \<mapsto> v)\<rparr>))"

section \<open>What the three variants share\<close>

text \<open>
  The record that \<^verbatim>\<open>FormPage\<close> keeps and hands to \<^verbatim>\<open>onSubmit\<close>: its state starts as
  the object with the five keys below, and \<^verbatim>\<open>handleChange\<close> only overwrites the key named by
  one of the five inputs. \<open>entries\<close> are its properties in insertion order and \<open>obj\<close> is
  the object as a value.
\<close>

record formData =
  name :: jsstring
  email :: jsstring
  phone :: jsstring
  address :: jsstring
  message :: jsstring

definition entries :: "formData \<Rightarrow> (jsstring \<times> json) list" where
  "entries d =
     [(str ''name'', JStr (name d)), (str ''email'', JStr (email d)),
      (str ''phone'', JStr (phone d)), (str ''address'', JStr (address d)),
      (str ''message'', JStr (message d))]"

definition obj :: "formData \<Rightarrow> json" where
  "obj d = JObj (entries d)"

text \<open>
  The spread \<^verbatim>\<open>[...v]\<close>: the elements of an array, the code points of a string, and
  \<^verbatim>\<open>TypeError\<close> for a value that is not iterable.
\<close>

fun code_points :: "jsstring \<Rightarrow> jsstring list" where
  "code_points [] = []"
| "code_points [c] = [[c]]"
| "code_points (c # d # s) =
     (if high_surrogate c \<and> low_surrogate d then [c, d] # code_points s
      else [c] # code_points (d # s))"

fun spread :: "json \<Rightarrow> error + json list" where
  "spread (JArr xs) = Inr xs"
| "spread (JStr s) = Inr (map JStr (code_points s))"
| "spread v = Inl TypeError"

text \<open>
  The state cells that every variant of \<^verbatim>\<open>App\<close> has. The session is anonymous while
  \<open>loggedIn\<close> is false. An \<^verbatim>\<open>async\<close> handler ends fulfilled or rejected; either way the
  state updates it made before stay.
\<close>

datatype page = Form | View

record session =
  loggedIn :: bool
  loginError :: jsstring
  submissions :: json

datatype 's outcome = Fulfilled 's | Rejected error 's

text \<open>
  \<^verbatim>\<open>App\<close> shows \<^verbatim>\<open>LoginPage\<close> while not logged in, and \<^verbatim>\<open>LoginPage\<close> shows the error
  when it is not the empty string.
\<close>

definition shown_error :: "'a session_scheme \<Rightarrow> jsstring option" where
  "shown_error st = (if \<not> loggedIn st \<and> loginError st \<noteq> [] then Some (loginError st) else None)"

text \<open>The object \<^verbatim>\<open>{ username, ...data }\<close> that both remote variants post.\<close>

definition payload :: "jsstring \<Rightarrow> formData \<Rightarrow> json" where
  "payload username data = JObj ((str ''username'', JStr username) # entries data)"

section \<open>The store adapters\<close>

subsection \<open>Remote, \<^verbatim>\<open>src/App.jsx\<close>\<close>

definition fetchSubmissions :: "platform \<Rightarrow> jsstring \<Rightarrow> error + json" where
  "fetchSubmissions pf username =
     (case encodeURIComponent username of
        Inl e \<Rightarrow> Inl e
      | Inr q \<Rightarrow>
          (case fetch pf \<lparr>url = str ''/api/submissions?username='' @ q, http_method = str ''GET'',
                          headers = [], body = None\<rparr> of
             Inl e \<Rightarrow> Inl e
           | Inr res \<Rightarrow> if ok res then json_body res else Inr (JArr [])))"

definition postSubmission :: "platform \<Rightarrow> jsstring \<Rightarrow> formData \<Rightarrow> error + unit" where
  "postSubmission pf username data =
     (case fetch pf \<lparr>url = str ''/api/submissions'', http_method = str ''POST'',
                     headers = [(str ''Content-Type'', str ''application/json'')],
                     body = Some (JSON_stringify pf (payload username data))\<rparr> of
        Inl e \<Rightarrow> Inl e
      | Inr res \<Rightarrow> Inr ())"

subsection \<open>Remote with guarded requests, \<^verbatim>\<open>unnamed/part_000\<close>\<close>

definition API_HEADERS :: "(jsstring \<times> jsstring) list" where
  "API_HEADERS =
     [(str ''Content-Type'', str ''application/json''),
      (str ''ngrok-skip-browser-warning'', str ''true'')]"

text \<open>
  Here the body of \<^verbatim>\<open>fetchSubmissions\<close> is inside \<^verbatim>\<open>try\<close>: whatever
  \<^verbatim>\<open>encodeURIComponent\<close>, \<^verbatim>\<open>fetch\<close> or \<^verbatim>\<open>res.json()\<close> raises ends in
  \<^verbatim>\<open>return []\<close>.
\<close>

definition fetchSubmissions_p000 :: "platform \<Rightarrow> jsstring \<Rightarrow> json" where
  "fetchSubmissions_p000 pf username =
     (case encodeURIComponent username of
        Inl e \<Rightarrow> JArr []
      | Inr q \<Rightarrow>
          (case fetch pf \<lparr>url = str ''/api/submissions?username='' @ q, http_method = str ''GET'',
                          headers = API_HEADERS, body = None\<rparr> of
             Inl e \<Rightarrow> JArr []
           | Inr res \<Rightarrow>
               if ok res then (case json_body res of Inl e \<Rightarrow> JArr [] | Inr v \<Rightarrow> v)
               else JArr []))"

text \<open>
  \<^verbatim>\<open>postSubmission\<close> of this variant returns nothing and raises nothing, so all that can
  be seen of a call is the request it hands to \<^verbatim>\<open>fetch\<close>: the function gives the
  requests it sent, in order.
\<close>

definition postSubmission_p000 :: "platform \<Rightarrow> jsstring \<Rightarrow> formData \<Rightarrow> request list" where
  "postSubmission_p000 pf username data =
     (let req = \<lparr>url = str ''/api/submissions'', http_method = str ''POST'',
                 headers = API_HEADERS,
                 body = Some (JSON_stringify pf (payload username data))\<rparr> in
      case fetch pf req of
        Inl e \<Rightarrow> [req]
      | Inr res \<Rightarrow> [req])"

subsection \<open>Local, \<^verbatim>\<open>unnamed/part_001\<close>\<close>

text \<open>
  \<^verbatim>\<open>getSubmissionsStorageKey(username, password)\<close>: the two strings joined by the code unit
  0, passed through \<^verbatim>\<open>btoa\<close> when the browser has it, behind the prefix
  \<^verbatim>\<open>submissions:\<close>. It raises what \<^verbatim>\<open>btoa\<close> raises.
\<close>

definition getSubmissionsStorageKey :: "platform \<Rightarrow> jsstring \<Rightarrow> jsstring \<Rightarrow> error + jsstring" where
  "getSubmissionsStorageKey pf username password =
     (let raw = username @ [0] @ password in
      case (if btoa_is_function pf then btoa raw else Inr raw) of
        Inl e \<Rightarrow> Inl e
      | Inr encoded \<Rightarrow> Inr (str ''submissions:'' @ encoded))"

text \<open>
  \<^verbatim>\<open>loadSubmissions\<close> and \<^verbatim>\<open>saveSubmissions\<close> are each one \<^verbatim>\<open>try\<close> block with a
  \<^verbatim>\<open>catch\<close> that returns the empty array, respectively does nothing. The block is the
  function with the suffix \<open>_try\<close>. \<^verbatim>\<open>!raw\<close> holds for \<^verbatim>\<open>null\<close> and for the empty
  string.
\<close>

definition loadSubmissions_try :: "platform \<Rightarrow> localStorage \<Rightarrow> jsstring \<Rightarrow> jsstring \<Rightarrow> error + json" where
  "loadSubmissions_try pf ls username password =
     (case getSubmissionsStorageKey pf username password of
        Inl e \<Rightarrow> Inl e
      | Inr key \<Rightarrow>
          (case getItem ls key of
             Inl e \<Rightarrow> Inl e
           | Inr None \<Rightarrow> Inr (JArr [])
           | Inr (Some raw) \<Rightarrow>
               if raw = [] then Inr (JArr [])
               else
                 (case JSON_parse pf raw of
                    Inl e \<Rightarrow> Inl e
                  | Inr parsed \<Rightarrow> Inr (if isArray parsed then parsed else JArr []))))"

definition loadSubmissions :: "platform \<Rightarrow> localStorage \<Rightarrow> jsstring \<Rightarrow> jsstring \<Rightarrow> json" where
  "loadSubmissions pf ls username password =
     (case loadSubmissions_try pf ls username password of Inl e \<Rightarrow> JArr [] | Inr v \<Rightarrow> v)"

definition saveSubmissions_try ::
  "platform \<Rightarrow> localStorage \<Rightarrow> jsstring \<Rightarrow> jsstring \<Rightarrow> json \<Rightarrow> error + localStorage" where
  "saveSubmissions_try pf ls username password subs =
     (case getSubmissionsStorageKey pf username password of
        Inl e \<Rightarrow> Inl e
      | Inr key \<Rightarrow> setItem ls key (JSON_stringify pf subs))"

definition saveSubmissions ::
  "platform \<Rightarrow> localStorage \<Rightarrow> jsstring \<Rightarrow> jsstring \<Rightarrow> json \<Rightarrow> localStorage" where
  "saveSubmissions pf ls username password subs =
     (case saveSubmissions_try pf ls username password subs of Inl e \<Rightarrow> ls | Inr ls' \<Rightarrow> ls')"

section \<open>The session of \<^verbatim>\<open>src/App.jsx\<close>\<close>

record app = session +
  currentPage :: page
  username :: jsstring

definition handleLogin :: "platform \<Rightarrow> app \<Rightarrow> jsstring \<Rightarrow> jsstring \<Rightarrow> app outcome" where
  "handleLogin pf st user password =
     (if user = [] \<or> password = [] then
        Fulfilled (st\<lparr>loginError := str ''Username and password are required''\<rparr>)
      else
        (case fetchSubmissions pf user of
           Inl e \<Rightarrow> Rejected e (st\<lparr>username := user\<rparr>)
         | Inr v \<Rightarrow>
             Fulfilled (st\<lparr>username := user, submissions := v, loggedIn := True,
                           loginError := []\<rparr>)))"

definition handleLogout :: "app \<Rightarrow> app" where
  "handleLogout st =
     st\<lparr>loggedIn := False, currentPage := Form, username := [], submissions := JArr []\<rparr>"

definition handleFormSubmit :: "platform \<Rightarrow> app \<Rightarrow> formData \<Rightarrow> app outcome" where
  "handleFormSubmit pf st data =
     (case postSubmission pf (username st) data of
        Inl e \<Rightarrow> Rejected e st
      | Inr u \<Rightarrow>
          (case spread (submissions st) of
             Inl e \<Rightarrow> Rejected e st
           | Inr xs \<Rightarrow> Fulfilled (st\<lparr>submissions := JArr (xs @ [obj data])\<rparr>)))"

text \<open>
  The state after a handler has settled. A rejected \<^verbatim>\<open>async\<close> handler is an unhandled
  rejection: nothing catches it and the application goes on from the state it left.
\<close>

fun settled :: "'s outcome \<Rightarrow> 's" where
  "settled (Fulfilled st) = st"
| "settled (Rejected e st) = st"

text \<open>
  A run of form submissions, one handler after the other, each with the platform (the
  network) as it is at that moment.
\<close>

fun submit_each :: "app \<Rightarrow> (platform \<times> formData) list \<Rightarrow> app" where
  "submit_each st [] = st"
| "submit_each st ((pf, data) # rest) = submit_each (settled (handleFormSubmit pf st data)) rest"

section \<open>The session of \<^verbatim>\<open>unnamed/part_000\<close>\<close>

record app_p000 = session +
  username_p000 :: jsstring

definition handleLogin_p000 :: "platform \<Rightarrow> app_p000 \<Rightarrow> jsstring \<Rightarrow> jsstring \<Rightarrow> app_p000 outcome" where
  "handleLogin_p000 pf st user password =
     (if user = [] \<or> password = [] then
        Fulfilled (st\<lparr>loginError := str ''Username and password are required''\<rparr>)
      else
        Fulfilled (st\<lparr>username_p000 := user, submissions := fetchSubmissions_p000 pf user,
                      loggedIn := True, loginError := []\<rparr>))"

definition handleLogout_p000 :: "app_p000 \<Rightarrow> app_p000" where
  "handleLogout_p000 st = st\<lparr>loggedIn := False, username_p000 := [], submissions := JArr []\<rparr>"

text \<open>
  The handler appends first and then calls \<^verbatim>\<open>postSubmission\<close> without awaiting it. Its
  result is the outcome together with the requests it sent.
\<close>

definition handleFormSubmit_p000 ::
  "platform \<Rightarrow> app_p000 \<Rightarrow> formData \<Rightarrow> app_p000 outcome \<times> request list" where
  "handleFormSubmit_p000 pf st data =
     (case spread (submissions st) of
        Inl e \<Rightarrow> (Rejected e st, [])
      | Inr xs \<Rightarrow>
          (Fulfilled (st\<lparr>submissions := JArr (xs @ [obj data])\<rparr>),
           postSubmission_p000 pf (username_p000 st) data))"

fun submit_each_p000 :: "app_p000 \<Rightarrow> (platform \<times> formData) list \<Rightarrow> app_p000" where
  "submit_each_p000 st [] = st"
| "submit_each_p000 st ((pf, data) # rest) =
     submit_each_p000 (settled (fst (handleFormSubmit_p000 pf st data))) rest"

section \<open>The session of \<^verbatim>\<open>unnamed/part_001\<close>\<close>

record auth_state =
  auth_username :: jsstring
  auth_password :: jsstring

record app_p001 = session +
  currentPage_p001 :: page
  auth :: auth_state

definition handleLogin_p001 ::
  "platform \<Rightarrow> localStorage \<Rightarrow> app_p001 \<Rightarrow> jsstring \<Rightarrow> jsstring \<Rightarrow> app_p001" where
  "handleLogin_p001 pf ls st user password =
     (if user = [] \<or> password = [] then
        st\<lparr>loginError := str ''Username and password are required''\<rparr>
      else
        st\<lparr>auth := \<lparr>auth_username = user, auth_password = password\<rparr>,
           submissions := loadSubmissions pf ls user password,
           loggedIn := True, loginError := []\<rparr>)"

definition handleLogout_p001 :: "app_p001 \<Rightarrow> app_p001" where
  "handleLogout_p001 st =
     st\<lparr>loggedIn := False, currentPage_p001 := Form,
        auth := \<lparr>auth_username = [], auth_password = []\<rparr>, submissions := JArr []\<rparr>"

text \<open>
  The handler of the local variant is synchronous: it either throws before any update
  (the spread of a value that is not iterable) or returns with the new state and storage.
\<close>

definition handleFormSubmit_p001 ::
  "platform \<Rightarrow> localStorage \<Rightarrow> app_p001 \<Rightarrow> formData \<Rightarrow> error + app_p001 \<times> localStorage" where
  "handleFormSubmit_p001 pf ls st data =
     (case spread (submissions st) of
        Inl e \<Rightarrow> Inl e
      | Inr xs \<Rightarrow>
          (let next = JArr (xs @ [obj data]) in
           Inr (st\<lparr>submissions := next\<rparr>,
                saveSubmissions pf ls (auth_username (auth st)) (auth_password (auth st)) next)))"

fun submit_each_p001 ::
  "platform \<Rightarrow> app_p001 \<times> localStorage \<Rightarrow> formData list \<Rightarrow> app_p001 \<times> localStorage" where
  "submit_each_p001 pf (st, ls) [] = (st, ls)"
| "submit_each_p001 pf (st, ls) (data # rest) =
     (case handleFormSubmit_p001 pf ls st data of
        Inl e \<Rightarrow> submit_each_p001 pf (st, ls) rest
      | Inr (st', ls') \<Rightarrow> submit_each_p001 pf (st', ls') rest)"

section \<open>A small platform for the worked examples\<close>

text \<open>
  The examples below need a platform to run on. Its JSON codec covers \<^verbatim>\<open>null\<close>, the
  booleans, strings without control characters, arrays and objects, written without white
  space; numbers are outside it (it writes them as \<^verbatim>\<open>null\<close>, as \<^verbatim>\<open>JSON.stringify\<close>
  does for the numbers that JSON cannot express, and does not read them).
\<close>

fun join :: "'a list \<Rightarrow> 'a list list \<Rightarrow> 'a list" where
  "join sep [] = []"
| "join sep [x] = x"
| "join sep (x # y # ys) = x @ sep @ join sep (y # ys)"

fun quoted :: "jsstring \<Rightarrow> jsstring" where
  "quoted [] = [34]"
| "quoted (c # s) = (if c = 34 \<or> c = 92 then 92 # c # quoted s else c # quoted s)"

fun small_stringify :: "json \<Rightarrow> jsstring" where
  "small_stringify JNull = str ''null''"
| "small_stringify (JBool b) = (if b then str ''true'' else str ''false'')"
| "small_stringify (JNum r) = str ''null''"
| "small_stringify (JStr s) = 34 # quoted s"
| "small_stringify (JArr vs) = 91 # join [44] (map small_stringify vs) @ [93]"
| "small_stringify (JObj ms) =
     123 # join [44] (map (\<lambda>(k, v). 34 # quoted k @ 58 # small_stringify v) ms) @ [125]"

fun unquoted :: "jsstring \<Rightarrow> (jsstring \<times> jsstring) option" where
  "unquoted [] = None"
| "unquoted [c] = (if c = 34 then Some ([], []) else None)"
| "unquoted (c # d # s) =
     (if c = 34 then Some ([], d # s)
      else if c = 92 then
        (if d = 34 \<or> d = 92 then map_option (apfst ((#) d)) (unquoted s) else None)
      else map_option (apfst ((#) c)) (unquoted (d # s)))"

fun small_value :: "nat \<Rightarrow> jsstring \<Rightarrow> (json \<times> jsstring) option"
  and small_elements :: "nat \<Rightarrow> jsstring \<Rightarrow> (json list \<times> jsstring) option"
  and small_members :: "nat \<Rightarrow> jsstring \<Rightarrow> ((jsstring \<times> json) list \<times> jsstring) option"
where
  "small_value 0 s = None"
| "small_value (Suc n) s =
     (if take 4 s = str ''null'' then Some (JNull, drop 4 s)
      else if take 4 s = str ''true'' then Some (JBool True, drop 4 s)
      else if take 5 s = str ''false'' then Some (JBool False, drop 5 s)
      else if take 2 s = str ''[]'' then Some (JArr [], drop 2 s)
      else if take 2 s = str ''{}'' then Some (JObj [], drop 2 s)
      else if take 1 s = [34] then map_option (apfst JStr) (unquoted (drop 1 s))
      else if take 1 s = str ''['' then map_option (apfst JArr) (small_elements n (drop 1 s))
      else if take 1 s = str ''{'' then map_option (apfst JObj) (small_members n (drop 1 s))
      else None)"
| "small_elements 0 s = None"
| "small_elements (Suc n) s =
     (case small_value n s of
        None \<Rightarrow> None
      | Some (v, r) \<Rightarrow>
          if take 1 r = str '']'' then Some ([v], drop 1 r)
          else if take 1 r = str '','' then map_option (apfst ((#) v)) (small_elements n (drop 1 r))
          else None)"
| "small_members 0 s = None"
| "small_members (Suc n) s =
     (if take 1 s = [34] then
        (case unquoted (drop 1 s) of
           None \<Rightarrow> None
         | Some (k, r) \<Rightarrow>
             if take 1 r = str '':'' then
               (case small_value n (drop 1 r) of
                  None \<Rightarrow> None
                | Some (v, r') \<Rightarrow>
                    if take 1 r' = str ''}'' then Some ([(k, v)], drop 1 r')
                    else if take 1 r' = str '','' then
                      map_option (apfst ((#) (k, v))) (small_members n (drop 1 r'))
                    else None)
             else None)
      else None)"

definition small_parse :: "jsstring \<Rightarrow> error + json" where
  "small_parse s =
     (case small_value (Suc (length s)) s of
        Some (v, []) \<Rightarrow> Inr v
      | _ \<Rightarrow> Inl SyntaxError)"

text \<open>
  The platform with this codec is offline (\<^verbatim>\<open>fetch\<close> raises \<^verbatim>\<open>TypeError\<close>, as it does
  when the network fails) until a server is put behind it; \<open>answering\<close> puts one there that
  answers every request with the given status and body.
\<close>

definition offline :: platform where
  "offline = \<lparr>btoa_is_function = True, JSON_stringify = small_stringify,
              JSON_parse = small_parse, fetch = (\<lambda>req. Inl TypeError)\<rparr>"

definition answering :: "bool \<Rightarrow> error + json \<Rightarrow> platform" where
  "answering status content = offline\<lparr>fetch := (\<lambda>req. Inr \<lparr>ok = status, json_body = content\<rparr>)\<rparr>"

text \<open>The record, the credentials and the states of the examples.\<close>

definition bob :: formData where
  "bob = \<lparr>name = str ''Bob'', email = str ''b@x.com'', phone = str ''555'',
          address = str ''1 Rd'', message = str ''hi''\<rparr>"

definition carol :: formData where
  "carol = \<lparr>name = str ''Carol'', email = str ''c@x.com'', phone = str ''777'',
            address = str ''2 Rd'', message = str ''hello''\<rparr>"

definition empty_storage :: localStorage where
  "empty_storage = \<lparr>items = Map.empty, blocked = False, full = (\<lambda>key v. False)\<rparr>"

definition full_storage :: localStorage where
  "full_storage = \<lparr>items = Map.empty, blocked = False, full = (\<lambda>key v. True)\<rparr>"

definition initial :: app where
  "initial = \<lparr>loggedIn = False, loginError = [], submissions = JArr [], currentPage = Form,
              username = []\<rparr>"

definition alice_session :: app where
  "alice_session = initial\<lparr>loggedIn := True, username := str ''alice''\<rparr>"

definition initial_p000 :: app_p000 where
  "initial_p000 = \<lparr>loggedIn = False, loginError = [], submissions = JArr [], username_p000 = []\<rparr>"

definition initial_p001 :: app_p001 where
  "initial_p001 = \<lparr>loggedIn = False, loginError = [], submissions = JArr [],
                   currentPage_p001 = Form, auth = \<lparr>auth_username = [], auth_password = []\<rparr>\<rparr>"

definition alice_session_p000 :: app_p000 where
  "alice_session_p000 = initial_p000\<lparr>loggedIn := True, username_p000 := str ''alice''\<rparr>"

definition alice_session_p001 :: app_p001 where
  "alice_session_p001 =
     initial_p001\<lparr>loggedIn := True,
       auth := \<lparr>auth_username = str ''alice'', auth_password = str ''secret''\<rparr>\<rparr>"

section \<open>Base64 is injective\<close>

lemma sextet_bounds:
  fixes a b c :: nat
  shows "a < 256 \<Longrightarrow> a div 4 \<le> 64"
    and "(a mod 4) * 16 \<le> 64"
    and "b < 256 \<Longrightarrow> (a mod 4) * 16 + b div 16 \<le> 64"
    and "(b mod 16) * 4 \<le> 64"
    and "c < 256 \<Longrightarrow> (b mod 16) * 4 + c div 64 \<le> 64"
    and "c mod 64 \<le> 64"
  by arith+

lemma sextet_no_pad:
  fixes b c :: nat
  shows "(b mod 16) * 4 \<noteq> 64"
    and "c < 256 \<Longrightarrow> (b mod 16) * 4 + c div 64 \<noteq> 64"
    and "c mod 64 \<noteq> 64"
  by arith+

lemma div_mod_eqD: "(a::nat) div n = a' div n \<Longrightarrow> a mod n = a' mod n \<Longrightarrow> a = a'"
  by (metis div_mult_mod_eq)

lemma sextet1_inj:
  fixes a a' :: nat
  assumes "a div 4 = a' div 4" and "(a mod 4) * 16 = (a' mod 4) * 16"
  shows "a = a'"
  by (rule div_mod_eqD [of a 4 a']) (use assms in simp_all)

lemma sextet2_inj:
  fixes a a' b b' :: nat
  assumes "a div 4 = a' div 4"
    and s1: "(a mod 4) * 16 + b div 16 = (a' mod 4) * 16 + b' div 16"
    and s2: "(b mod 16) * 4 = (b' mod 16) * 4"
    and lt: "b < 256" "b' < 256"
  shows "a = a' \<and> b = b'"
proof -
  from lt have "((a mod 4) * 16 + b div 16) div 16 = a mod 4"
    and "((a' mod 4) * 16 + b' div 16) div 16 = a' mod 4"
    and "((a mod 4) * 16 + b div 16) mod 16 = b div 16"
    and "((a' mod 4) * 16 + b' div 16) mod 16 = b' div 16"
    by simp_all
  with s1 have "a mod 4 = a' mod 4" and "b div 16 = b' div 16" by simp_all
  moreover from s2 have "b mod 16 = b' mod 16" by simp
  ultimately show ?thesis
    using assms(1) div_mod_eqD [of a 4 a'] div_mod_eqD [of b 16 b'] by blast
qed

lemma sextet3_inj:
  fixes a a' b b' c c' :: nat
  assumes "a div 4 = a' div 4"
    and s1: "(a mod 4) * 16 + b div 16 = (a' mod 4) * 16 + b' div 16"
    and s2: "(b mod 16) * 4 + c div 64 = (b' mod 16) * 4 + c' div 64"
    and s3: "c mod 64 = c' mod 64"
    and lt: "b < 256" "b' < 256" "c < 256" "c' < 256"
  shows "a = a' \<and> b = b' \<and> c = c'"
proof -
  from lt have "((a mod 4) * 16 + b div 16) div 16 = a mod 4"
    and "((a' mod 4) * 16 + b' div 16) div 16 = a' mod 4"
    and "((a mod 4) * 16 + b div 16) mod 16 = b div 16"
    and "((a' mod 4) * 16 + b' div 16) mod 16 = b' div 16"
    by simp_all
  with s1 have a: "a mod 4 = a' mod 4" and b: "b div 16 = b' div 16" by simp_all
  from lt have "((b mod 16) * 4 + c div 64) div 4 = b mod 16"
    and "((b' mod 16) * 4 + c' div 64) div 4 = b' mod 16"
    and "((b mod 16) * 4 + c div 64) mod 4 = c div 64"
    and "((b' mod 16) * 4 + c' div 64) mod 4 = c' div 64"
    by simp_all
  with s2 have "b mod 16 = b' mod 16" and "c div 64 = c' div 64" by simp_all
  with a b s3 assms(1) div_mod_eqD [of a 4 a'] div_mod_eqD [of b 16 b'] div_mod_eqD [of c 64 c']
  show ?thesis by blast
qed

lemma sextets_range: "list_all (\<lambda>c. c < 256) bs \<Longrightarrow> set (sextets bs) \<subseteq> {..64}"
  by (induction bs rule: sextets.induct) (simp_all add: sextet_bounds)

lemma sextets_inj:
  "list_all (\<lambda>c. c < 256) xs \<Longrightarrow> list_all (\<lambda>c. c < 256) ys \<Longrightarrow> sextets xs = sextets ys \<Longrightarrow> xs = ys"
proof (induction xs arbitrary: ys rule: sextets.induct)
  case 1
  then show ?case by (cases ys rule: sextets.cases) simp_all
next
  case (2 a)
  show ?case
  proof (cases ys rule: sextets.cases)
    case 1
    with 2 show ?thesis by simp
  next
    case (2 a')
    with "2.prems" sextet1_inj [of a a'] show ?thesis by simp
  next
    case (3 a' b')
    with "2.prems" sextet_no_pad(1) [of b'] show ?thesis by simp
  next
    case (4 a' b' c' bs')
    with "2.prems" sextet_no_pad(2) [of c' b'] show ?thesis by simp
  qed
next
  case (3 a b)
  show ?case
  proof (cases ys rule: sextets.cases)
    case 1
    with 3 show ?thesis by simp
  next
    case (2 a')
    with "3.prems" sextet_no_pad(1) [of b] show ?thesis by simp
  next
    case (3 a' b')
    with "3.prems" sextet2_inj [of a a' b b'] show ?thesis by simp
  next
    case (4 a' b' c' bs')
    with "3.prems" sextet_no_pad(3) [of c'] show ?thesis by simp
  qed
next
  case (4 a b c bs)
  show ?case
  proof (cases ys rule: sextets.cases)
    case 1
    with 4 show ?thesis by simp
  next
    case (2 a')
    with "4.prems" sextet_no_pad(2) [of c b] show ?thesis by simp
  next
    case (3 a' b')
    with "4.prems" sextet_no_pad(3) [of c] show ?thesis by simp
  next
    case (4 a' b' c' bs')
    from 4 "4.prems" have eqs: "a div 4 = a' div 4"
      "(a mod 4) * 16 + b div 16 = (a' mod 4) * 16 + b' div 16"
      "(b mod 16) * 4 + c div 64 = (b' mod 16) * 4 + c' div 64"
      "c mod 64 = c' mod 64" "b < 256" "b' < 256" "c < 256" "c' < 256"
      and rest: "list_all (\<lambda>c. c < 256) bs" "list_all (\<lambda>c. c < 256) bs'"
        "sextets bs = sextets bs'"
      by simp_all
    from rest have "bs = bs'" by (rule "4.IH")
    moreover from eqs have "a = a' \<and> b = b' \<and> c = c'" by (rule sextet3_inj)
    ultimately show ?thesis using 4 by simp
  qed
qed

lemma b64chars_inj_on: "inj_on (\<lambda>i. b64chars ! i) {..64}"
proof -
  have "distinct b64chars" and "length b64chars = 65"
    by (simp_all add: b64chars_def)
  then show ?thesis
    by (simp add: inj_on_def nth_eq_iff_index_eq)
qed

lemma base64_inj:
  assumes "list_all (\<lambda>c. c < 256) xs" "list_all (\<lambda>c. c < 256) ys" "base64 xs = base64 ys"
  shows "xs = ys"
proof -
  have "set (sextets xs) \<union> set (sextets ys) \<subseteq> {..64}"
    using assms(1,2) sextets_range [of xs] sextets_range [of ys] by simp
  with b64chars_inj_on have "inj_on (\<lambda>i. b64chars ! i) (set (sextets xs) \<union> set (sextets ys))"
    by (rule inj_on_subset)
  with assms(3) have "sextets xs = sextets ys"
    by (simp add: base64_def inj_on_map_eq_map)
  with assms(1,2) show ?thesis by (rule sextets_inj)
qed

lemma str_inj: "str a = str b \<Longrightarrow> a = b"
  unfolding str_def by (simp add: inj_map_eq_map inj_of_char)

lemma latin1_bytes: "\<not> list_ex (\<lambda>c. 255 < c) s \<Longrightarrow> list_all (\<lambda>c. c < 256) s"
  for s :: "nat list"
  by (induction s) auto

lemma btoa_inj:
  assumes "btoa a = Inr x" and "btoa b = Inr x"
  shows "a = b"
proof -
  from assms have a: "\<not> list_ex (\<lambda>c. 255 < c) a" and b: "\<not> list_ex (\<lambda>c. 255 < c) b"
    by (simp_all add: btoa_def split: if_splits)
  with assms have "str (base64 a) = str (base64 b)"
    by (simp add: btoa_def)
  then have "base64 a = base64 b" by (rule str_inj)
  with a b show ?thesis by (blast intro: base64_inj latin1_bytes)
qed

lemma joined_inj:
  "z \<notin> set u1 \<Longrightarrow> z \<notin> set u2 \<Longrightarrow> u1 @ z # p1 = u2 @ z # p2 \<Longrightarrow> u1 = u2 \<and> p1 = p2"
proof (induction u1 arbitrary: u2)
  case Nil
  then show ?case by (cases u2) auto
next
  case (Cons a u1)
  then show ?case by (cases u2) auto
qed

lemma joined_inj_right:
  assumes "z \<notin> set p1" and "z \<notin> set p2" and "u1 @ z # p1 = u2 @ z # p2"
  shows "u1 = u2 \<and> p1 = p2"
proof -
  from assms(3) have "rev (u1 @ z # p1) = rev (u2 @ z # p2)" by simp
  then have "rev p1 @ z # rev u1 = rev p2 @ z # rev u2" by simp
  moreover from assms(1,2) have "z \<notin> set (rev p1)" and "z \<notin> set (rev p2)" by simp_all
  ultimately have "rev p1 = rev p2 \<and> rev u1 = rev u2" by (rule joined_inj [rotated 2])
  then show ?thesis by simp
qed

section \<open>Properties of the local store adapter\<close>

lemma storage_key_inj:
  assumes "(0 \<notin> set u1 \<and> 0 \<notin> set u2) \<or> (0 \<notin> set p1 \<and> 0 \<notin> set p2)"
    and "getSubmissionsStorageKey pf u1 p1 = Inr k" and "getSubmissionsStorageKey pf u2 p2 = Inr k"
  shows "u1 = u2 \<and> p1 = p2"
proof -
  have "u1 @ 0 # p1 = u2 @ 0 # p2"
  proof (cases "btoa_is_function pf")
    case True
    with assms(2) obtain x where x: "btoa (u1 @ 0 # p1) = Inr x" "k = str ''submissions:'' @ x"
      by (auto simp: getSubmissionsStorageKey_def split: sum.splits)
    from True assms(3) obtain y where y: "btoa (u2 @ 0 # p2) = Inr y" "k = str ''submissions:'' @ y"
      by (auto simp: getSubmissionsStorageKey_def split: sum.splits)
    from x(2) y(2) have "x = y" by simp
    with x(1) y(1) show ?thesis by (blast intro: btoa_inj)
  next
    case False
    with assms(2,3) show ?thesis
      by (auto simp: getSubmissionsStorageKey_def)
  qed
  with assms(1) show ?thesis
    by (blast dest: joined_inj joined_inj_right)
qed

lemma getSubmissionsStorageKey_platform:
  "btoa_is_function pf' = btoa_is_function pf \<Longrightarrow>
   getSubmissionsStorageKey pf' u p = getSubmissionsStorageKey pf u p"
  by (simp add: getSubmissionsStorageKey_def)

lemma saveSubmissions_try_Inr:
  assumes "saveSubmissions_try pf ls u p v = Inr ls'"
  obtains k where "getSubmissionsStorageKey pf u p = Inr k"
    and "\<not> blocked ls" and "\<not> full ls k (JSON_stringify pf v)"
    and "ls' = ls\<lparr>items := (items ls)(k \<mapsto> JSON_stringify pf v)\<rparr>"
  using assms
  by (auto simp: saveSubmissions_try_def setItem_def split: sum.splits if_splits)

lemma getItem_saveSubmissions_other:
  assumes "getSubmissionsStorageKey pf u p = Inr k" and "k \<noteq> k'"
  shows "getItem (saveSubmissions pf ls u p v) k' = getItem ls k'"
  using assms
  by (simp add: saveSubmissions_def saveSubmissions_try_def setItem_def getItem_def)

text \<open>
  Claim C4, as amended. The key is a function of the credential pair and of whether the
  browser has \<^verbatim>\<open>btoa\<close>; nothing else of the platform enters it. Take two different
  credential pairs, also pairs that differ in the password only, for which a key is derived,
  and let the separator (the code unit 0) occur in neither username, or in neither
  password. Then the two keys differ, and what is saved under the one pair does not change
  what is loaded under the other.
\<close>

theorem storage_key_separates_credentials:
  assumes "(0 \<notin> set u1 \<and> 0 \<notin> set u2) \<or> (0 \<notin> set p1 \<and> 0 \<notin> set p2)"
    and "(u1, p1) \<noteq> (u2, p2)"
    and "getSubmissionsStorageKey pf u1 p1 = Inr k1"
    and "getSubmissionsStorageKey pf u2 p2 = Inr k2"
  shows "k1 \<noteq> k2
     \<and> getSubmissionsStorageKey (pf\<lparr>JSON_stringify := f, JSON_parse := g, fetch := h\<rparr>) u1 p1
       = Inr k1
     \<and> loadSubmissions pf (saveSubmissions pf ls u1 p1 subs) u2 p2 = loadSubmissions pf ls u2 p2"
proof -
  from assms storage_key_inj [of u1 u2 p1 p2 pf k1] have "k1 \<noteq> k2"
    by blast
  with assms(3) have "getItem (saveSubmissions pf ls u1 p1 subs) k2 = getItem ls k2"
    by (rule getItem_saveSubmissions_other)
  with assms(3,4) \<open>k1 \<noteq> k2\<close> show ?thesis
    by (simp add: loadSubmissions_def loadSubmissions_try_def getSubmissionsStorageKey_def)
qed

theorem storage_key_separates_credentials_witness:
  "((0 \<notin> set (str ''alice'') \<and> 0 \<notin> set (str ''alice''))
     \<or> (0 \<notin> set (str ''secret'') \<and> 0 \<notin> set (str ''Secret'')))
   \<and> (str ''alice'', str ''secret'') \<noteq> (str ''alice'', str ''Secret'')
   \<and> getSubmissionsStorageKey offline (str ''alice'') (str ''secret'')
       = Inr (str ''submissions:YWxpY2UAc2VjcmV0'')
   \<and> getSubmissionsStorageKey offline (str ''alice'') (str ''Secret'')
       = Inr (str ''submissions:YWxpY2UAU2VjcmV0'')
   \<and> str ''submissions:YWxpY2UAc2VjcmV0'' \<noteq> str ''submissions:YWxpY2UAU2VjcmV0''
   \<and> loadSubmissions offline
         (saveSubmissions offline empty_storage (str ''alice'') (str ''secret'') (JArr [obj bob]))
         (str ''alice'') (str ''Secret'')
       = loadSubmissions offline empty_storage (str ''alice'') (str ''Secret'')"
proof -
  have h1: "(0 \<notin> set (str ''alice'') \<and> 0 \<notin> set (str ''alice''))
     \<or> (0 \<notin> set (str ''secret'') \<and> 0 \<notin> set (str ''Secret''))"
    by (simp add: str_def)
  have h2: "(str ''alice'', str ''secret'') \<noteq> (str ''alice'', str ''Secret'')"
    by (simp add: str_def)
  have h3: "getSubmissionsStorageKey offline (str ''alice'') (str ''secret'')
       = Inr (str ''submissions:YWxpY2UAc2VjcmV0'')"
    by (simp add: getSubmissionsStorageKey_def offline_def btoa_def base64_def b64chars_def str_def)
  have h4: "getSubmissionsStorageKey offline (str ''alice'') (str ''Secret'')
       = Inr (str ''submissions:YWxpY2UAU2VjcmV0'')"
    by (simp add: getSubmissionsStorageKey_def offline_def btoa_def base64_def b64chars_def str_def)
  from storage_key_separates_credentials [OF h1 h2 h3 h4, of _ _ _ empty_storage "JArr [obj bob]"]
    h1 h2 h3 h4
  show ?thesis by simp
qed

text \<open>
  Claim C4 as stated fails: the username \<^verbatim>\<open>a\0b\<close> with the password \<^verbatim>\<open>c\<close> and the
  username \<^verbatim>\<open>a\<close> with the password \<^verbatim>\<open>b\0c\<close> are joined to the same text, so they share a
  key, and the second pair loads what the first saved.
\<close>

theorem storage_key_collision:
  "([97, 0, 98], [99]) \<noteq> ([97], [98, 0, 99 :: nat])
   \<and> getSubmissionsStorageKey offline [97, 0, 98] [99]
       = getSubmissionsStorageKey offline [97] [98, 0, 99]
   \<and> loadSubmissions offline
         (saveSubmissions offline empty_storage [97, 0, 98] [99] (JArr [obj bob])) [97] [98, 0, 99]
       = JArr [obj bob]
   \<and> loadSubmissions offline empty_storage [97] [98, 0, 99] = JArr []"
  by (simp add: getSubmissionsStorageKey_def offline_def btoa_def base64_def b64chars_def str_def
      loadSubmissions_def loadSubmissions_try_def saveSubmissions_def saveSubmissions_try_def
      setItem_def getItem_def empty_storage_def obj_def entries_def bob_def small_parse_def)

text \<open>
  Claim C3, as amended. \<^verbatim>\<open>saveSubmissions\<close> swallows whatever its \<^verbatim>\<open>try\<close> block raises
  (``ignore storage errors (quota, blocked, etc.)''), so the round trip needs the write to
  have happened: when the block did not raise, and \<^verbatim>\<open>JSON.parse\<close> reads the text that
  \<^verbatim>\<open>JSON.stringify\<close> wrote for the sequence back as that sequence (the text is not
  empty), then \<^verbatim>\<open>loadSubmissions\<close> with the same credentials returns the sequence saved.
\<close>

theorem loadSubmissions_after_saveSubmissions:
  assumes "saveSubmissions_try pf ls u p (JArr S) = Inr ls'"
    and "JSON_stringify pf (JArr S) \<noteq> []"
    and "JSON_parse pf (JSON_stringify pf (JArr S)) = Inr (JArr S)"
  shows "saveSubmissions pf ls u p (JArr S) = ls' \<and> loadSubmissions pf ls' u p = JArr S"
proof -
  from assms(1) obtain k where k: "getSubmissionsStorageKey pf u p = Inr k"
    and open_storage: "\<not> blocked ls"
    and ls': "ls' = ls\<lparr>items := (items ls)(k \<mapsto> JSON_stringify pf (JArr S))\<rparr>"
    by (rule saveSubmissions_try_Inr)
  from open_storage ls' have "getItem ls' k = Inr (Some (JSON_stringify pf (JArr S)))"
    by (simp add: getItem_def)
  with k assms(2,3) have "loadSubmissions pf ls' u p = JArr S"
    by (simp add: loadSubmissions_def loadSubmissions_try_def)
  moreover from assms(1) have "saveSubmissions pf ls u p (JArr S) = ls'"
    by (simp add: saveSubmissions_def)
  ultimately show ?thesis by simp
qed

text \<open>The worked example: Bob's record saved by \<^verbatim>\<open>alice\<close> with the password \<^verbatim>\<open>secret\<close>.\<close>

lemma offline_simps:
  "btoa_is_function offline" "JSON_stringify offline = small_stringify"
  "JSON_parse offline = small_parse" "fetch offline req = Inl TypeError"
  by (simp_all add: offline_def)

lemma bob_text:
  "small_stringify (JArr [obj bob]) =
     str ''[{\"name\":\"Bob\",\"email\":\"b@x.com\",\"phone\":\"555\",\"address\":\"1 Rd\",\"message\":\"hi\"}]''"
  by (simp add: obj_def entries_def bob_def str_def)

lemma bob_text_parsed: "small_parse (small_stringify (JArr [obj bob])) = Inr (JArr [obj bob])"
  by (simp add: obj_def entries_def bob_def str_def small_parse_def)

lemma alice_key:
  "getSubmissionsStorageKey offline (str ''alice'') (str ''secret'')
     = Inr (str ''submissions:YWxpY2UAc2VjcmV0'')"
  by (simp add: getSubmissionsStorageKey_def offline_simps btoa_def base64_def b64chars_def str_def)

theorem loadSubmissions_after_saveSubmissions_witness:
  "saveSubmissions_try offline empty_storage (str ''alice'') (str ''secret'') (JArr [obj bob])
     = Inr (empty_storage\<lparr>items :=
         [str ''submissions:YWxpY2UAc2VjcmV0'' \<mapsto> small_stringify (JArr [obj bob])]\<rparr>)
   \<and> JSON_stringify offline (JArr [obj bob]) \<noteq> []
   \<and> JSON_parse offline (JSON_stringify offline (JArr [obj bob])) = Inr (JArr [obj bob])
   \<and> loadSubmissions offline
         (saveSubmissions offline empty_storage (str ''alice'') (str ''secret'') (JArr [obj bob]))
         (str ''alice'') (str ''secret'')
       = JArr [obj bob]"
proof -
  have h1: "saveSubmissions_try offline empty_storage (str ''alice'') (str ''secret'') (JArr [obj bob])
     = Inr (empty_storage\<lparr>items :=
         [str ''submissions:YWxpY2UAc2VjcmV0'' \<mapsto> small_stringify (JArr [obj bob])]\<rparr>)"
    by (simp add: saveSubmissions_try_def alice_key setItem_def empty_storage_def offline_simps)
  have h2: "JSON_stringify offline (JArr [obj bob]) \<noteq> []"
    by (simp add: offline_simps)
  have h3: "JSON_parse offline (JSON_stringify offline (JArr [obj bob])) = Inr (JArr [obj bob])"
    by (simp only: offline_simps bob_text_parsed)
  from loadSubmissions_after_saveSubmissions [OF h1 h2 h3] h1 h2 h3
  show ?thesis by simp
qed

text \<open>
  Claim C3 as stated fails where nothing is stored: in a storage whose quota is exhausted
  \<^verbatim>\<open>setItem\<close> raises, \<^verbatim>\<open>saveSubmissions\<close> ignores it, and the read finds no item; and for a
  username with a code unit above 255 (here the euro sign) \<^verbatim>\<open>btoa\<close> raises in both
  functions, so nothing is written and the read gives the empty array.
\<close>

theorem saveSubmissions_not_stored:
  "loadSubmissions offline
     (saveSubmissions offline full_storage (str ''alice'') (str ''secret'') (JArr [obj bob]))
     (str ''alice'') (str ''secret'')
   \<noteq> JArr [obj bob]
   \<and> loadSubmissions offline
     (saveSubmissions offline empty_storage [0x20AC] (str ''secret'') (JArr [obj bob]))
     [0x20AC] (str ''secret'')
   \<noteq> JArr [obj bob]"
  by (simp add: loadSubmissions_def loadSubmissions_try_def saveSubmissions_def
      saveSubmissions_try_def alice_key setItem_def getItem_def empty_storage_def
      full_storage_def getSubmissionsStorageKey_def btoa_def offline_simps)

text \<open>
  Claim C8. \<^verbatim>\<open>loadSubmissions\<close> throws nothing and always returns an array: either the
  empty one, or the value that \<^verbatim>\<open>JSON.parse\<close> made of the stored text, and then this
  value is an array. So a missing item, a text that does not parse and a parsed value that is
  not an array all give the empty array. Conversely, a stored text (not the empty string)
  that parses to an array is returned as parsed.
\<close>

theorem loadSubmissions_array_or_empty:
  "isArray (loadSubmissions pf ls u p)
   \<and> (loadSubmissions pf ls u p = JArr []
      \<or> (\<exists>key raw. getSubmissionsStorageKey pf u p = Inr key
            \<and> getItem ls key = Inr (Some raw)
            \<and> JSON_parse pf raw = Inr (loadSubmissions pf ls u p)))
   \<and> (\<forall>key raw v. getSubmissionsStorageKey pf u p = Inr key
          \<and> getItem ls key = Inr (Some raw) \<and> raw \<noteq> []
          \<and> JSON_parse pf raw = Inr v \<and> isArray v
        \<longrightarrow> loadSubmissions pf ls u p = v)"
proof (intro conjI allI impI)
  show "isArray (loadSubmissions pf ls u p)"
    by (simp add: loadSubmissions_def loadSubmissions_try_def
        split: sum.splits option.splits)
next
  show "loadSubmissions pf ls u p = JArr []
      \<or> (\<exists>key raw. getSubmissionsStorageKey pf u p = Inr key
            \<and> getItem ls key = Inr (Some raw)
            \<and> JSON_parse pf raw = Inr (loadSubmissions pf ls u p))"
    by (simp add: loadSubmissions_def loadSubmissions_try_def
        split: sum.splits option.splits)
next
  fix key raw v
  assume "getSubmissionsStorageKey pf u p = Inr key
          \<and> getItem ls key = Inr (Some raw) \<and> raw \<noteq> []
          \<and> JSON_parse pf raw = Inr v \<and> isArray v"
  then show "loadSubmissions pf ls u p = v"
    by (simp add: loadSubmissions_def loadSubmissions_try_def)
qed


theorem loadSubmissions_array_or_empty_witness:
  "getSubmissionsStorageKey offline (str ''alice'') (str ''secret'')
     = Inr (str ''submissions:YWxpY2UAc2VjcmV0'')
   \<and> getItem (empty_storage\<lparr>items :=
         [str ''submissions:YWxpY2UAc2VjcmV0'' \<mapsto> small_stringify (JArr [obj bob])]\<rparr>)
       (str ''submissions:YWxpY2UAc2VjcmV0'') = Inr (Some (small_stringify (JArr [obj bob])))
   \<and> small_stringify (JArr [obj bob]) \<noteq> []
   \<and> JSON_parse offline (small_stringify (JArr [obj bob])) = Inr (JArr [obj bob])
   \<and> isArray (JArr [obj bob])
   \<and> loadSubmissions offline (empty_storage\<lparr>items :=
         [str ''submissions:YWxpY2UAc2VjcmV0'' \<mapsto> small_stringify (JArr [obj bob])]\<rparr>)
       (str ''alice'') (str ''secret'') = JArr [obj bob]"
proof -
  let ?ls = "empty_storage\<lparr>items :=
         [str ''submissions:YWxpY2UAc2VjcmV0'' \<mapsto> small_stringify (JArr [obj bob])]\<rparr>"
  have h: "getSubmissionsStorageKey offline (str ''alice'') (str ''secret'')
       = Inr (str ''submissions:YWxpY2UAc2VjcmV0'')
     \<and> getItem ?ls (str ''submissions:YWxpY2UAc2VjcmV0'')
       = Inr (Some (small_stringify (JArr [obj bob])))
     \<and> small_stringify (JArr [obj bob]) \<noteq> []
     \<and> JSON_parse offline (small_stringify (JArr [obj bob])) = Inr (JArr [obj bob])
     \<and> isArray (JArr [obj bob])"
  proof (intro conjI)
    show "JSON_parse offline (small_stringify (JArr [obj bob])) = Inr (JArr [obj bob])"
      by (simp only: offline_simps bob_text_parsed)
  qed (simp_all add: alice_key getItem_def empty_storage_def)
  from loadSubmissions_array_or_empty [of offline ?ls "str ''alice''" "str ''secret''"] h
  have "loadSubmissions offline ?ls (str ''alice'') (str ''secret'') = JArr [obj bob]"
    by blast
  with h show ?thesis by simp
qed

text \<open>
  Where the browser has \<^verbatim>\<open>btoa\<close>, credentials with a code unit above 255 have no storage
  key: nothing is saved for them and nothing is loaded.
\<close>

theorem wide_credentials_never_stored:
  assumes "btoa_is_function pf" and "list_ex (\<lambda>c. 255 < c) (user @ password)"
  shows "saveSubmissions pf ls user password subs = ls
     \<and> loadSubmissions pf ls user password = JArr []"
proof -
  from assms(2) have "list_ex (\<lambda>c. 255 < c) (user @ [0] @ password)"
    by (simp add: list_ex_iff)
  with assms(1) have "getSubmissionsStorageKey pf user password = Inl InvalidCharacterError"
    by (simp add: getSubmissionsStorageKey_def btoa_def)
  then show ?thesis
    by (simp add: saveSubmissions_def saveSubmissions_try_def loadSubmissions_def
        loadSubmissions_try_def)
qed

theorem wide_credentials_never_stored_witness:
  "btoa_is_function offline \<and> list_ex (\<lambda>c. 255 < c) ([0x20AC] @ str ''secret'')
   \<and> saveSubmissions offline empty_storage [0x20AC] (str ''secret'') (JArr [obj bob])
       = empty_storage
   \<and> loadSubmissions offline empty_storage [0x20AC] (str ''secret'') = JArr []"
proof -
  have h1: "btoa_is_function offline" by (simp add: offline_simps)
  have h2: "list_ex (\<lambda>c. 255 < c) ([0x20AC] @ str ''secret'')" by simp
  from wide_credentials_never_stored [OF h1 h2, of empty_storage "JArr [obj bob]"] h1 h2
  show ?thesis by simp
qed

section \<open>Properties of the session\<close>

lemma str_eq_Nil: "str s = [] \<longleftrightarrow> s = []"
  by (simp add: str_def)

lemma encodeURIComponent_alice: "encodeURIComponent (str ''alice'') = Inr (str ''alice'')"
  by (simp add: str_def uri_unreserved_def)

lemma answering_simps:
  "btoa_is_function (answering status content)"
  "JSON_stringify (answering status content) = small_stringify"
  "JSON_parse (answering status content) = small_parse"
  "fetch (answering status content) req = Inr \<lparr>ok = status, json_body = content\<rparr>"
  by (simp_all add: answering_def offline_def)

text \<open>
  Claim C6. In all three variants a login with an empty username or an empty password ends
  at once: the only state cell written is the error message, so the session stays as it
  was (anonymous, since the login form is only shown then), the credentials and the
  submission list are untouched, and the login page shows the message.
\<close>

theorem handleLogin_requires_credentials:
  assumes "user = [] \<or> password = []"
  shows "handleLogin pf st user password
       = Fulfilled (st\<lparr>loginError := str ''Username and password are required''\<rparr>)
     \<and> handleLogin_p000 pf st0 user password
       = Fulfilled (st0\<lparr>loginError := str ''Username and password are required''\<rparr>)
     \<and> handleLogin_p001 pf ls st1 user password
       = st1\<lparr>loginError := str ''Username and password are required''\<rparr>
     \<and> shown_error (st\<lparr>loginError := str ''Username and password are required''\<rparr>)
       = (if loggedIn st then None else Some (str ''Username and password are required''))
     \<and> shown_error (st0\<lparr>loginError := str ''Username and password are required''\<rparr>)
       = (if loggedIn st0 then None else Some (str ''Username and password are required''))
     \<and> shown_error (st1\<lparr>loginError := str ''Username and password are required''\<rparr>)
       = (if loggedIn st1 then None else Some (str ''Username and password are required''))"
  using assms
  by (auto simp: handleLogin_def handleLogin_p000_def handleLogin_p001_def shown_error_def
      str_eq_Nil)

theorem handleLogin_requires_credentials_witness:
  "(str ''alice'' = [] \<or> ([]::jsstring) = [])
   \<and> handleLogin offline initial (str ''alice'') []
       = Fulfilled (initial\<lparr>loginError := str ''Username and password are required''\<rparr>)
   \<and> handleLogin_p000 offline initial_p000 (str ''alice'') []
       = Fulfilled (initial_p000\<lparr>loginError := str ''Username and password are required''\<rparr>)
   \<and> handleLogin_p001 offline empty_storage initial_p001 (str ''alice'') []
       = initial_p001\<lparr>loginError := str ''Username and password are required''\<rparr>
   \<and> \<not> loggedIn (initial\<lparr>loginError := str ''Username and password are required''\<rparr>)
   \<and> shown_error (initial\<lparr>loginError := str ''Username and password are required''\<rparr>)
       = Some (str ''Username and password are required'')"
proof -
  have h: "str ''alice'' = [] \<or> ([]::jsstring) = []" by simp
  have anonymous: "\<not> loggedIn initial" by (simp add: initial_def)
  from handleLogin_requires_credentials
    [OF h, of offline initial initial_p000 empty_storage initial_p001] anonymous
  show ?thesis by simp
qed

text \<open>
  Claim C1 on \<^verbatim>\<open>src/App.jsx\<close>, where \<^verbatim>\<open>fetchSubmissions\<close> has no \<^verbatim>\<open>try\<close>: with the
  network down \<^verbatim>\<open>fetch\<close> raises, \<^verbatim>\<open>fetchSubmissions\<close> raises the same error instead of
  returning the empty array, and the login is rejected after it has set the username. A
  body that is not JSON does the same. Only a response without \<^verbatim>\<open>res.ok\<close> gives the
  empty array.
\<close>

theorem fetchSubmissions_raises:
  "fetchSubmissions offline (str ''alice'') = Inl TypeError
   \<and> handleLogin offline initial (str ''alice'') (str ''secret'')
       = Rejected TypeError (initial\<lparr>username := str ''alice''\<rparr>)
   \<and> fetchSubmissions (answering True (Inl SyntaxError)) (str ''alice'') = Inl SyntaxError
   \<and> fetchSubmissions (answering False (Inl SyntaxError)) (str ''alice'') = Inr (JArr [])"
  by (simp add: fetchSubmissions_def handleLogin_def encodeURIComponent_alice offline_simps
      answering_simps str_eq_Nil)

text \<open>
  In \<^verbatim>\<open>unnamed/part_000\<close> the read raises nothing: it returns the empty array or the
  parsed body of a response with \<^verbatim>\<open>res.ok\<close>.
\<close>

theorem fetchSubmissions_p000_empty_or_body:
  "fetchSubmissions_p000 pf u = JArr []
   \<or> (\<exists>q res. encodeURIComponent u = Inr q
        \<and> fetch pf \<lparr>url = str ''/api/submissions?username='' @ q, http_method = str ''GET'',
                      headers = API_HEADERS, body = None\<rparr> = Inr res
        \<and> ok res \<and> json_body res = Inr (fetchSubmissions_p000 pf u))"
  by (simp add: fetchSubmissions_p000_def split: sum.splits)

text \<open>
  In \<^verbatim>\<open>src/App.jsx\<close> a response without \<^verbatim>\<open>res.ok\<close> gives the empty list, and the login
  succeeds.
\<close>

theorem fetchSubmissions_bad_status:
  assumes "encodeURIComponent user = Inr q"
    and "fetch pf \<lparr>url = str ''/api/submissions?username='' @ q, http_method = str ''GET'',
                    headers = [], body = None\<rparr> = Inr res"
    and "\<not> ok res" and "user \<noteq> []" and "password \<noteq> []"
  shows "fetchSubmissions pf user = Inr (JArr [])
     \<and> handleLogin pf st user password
       = Fulfilled (st\<lparr>username := user, submissions := JArr [], loggedIn := True,
                      loginError := []\<rparr>)"
  using assms by (simp add: fetchSubmissions_def handleLogin_def)

theorem fetchSubmissions_bad_status_witness:
  "encodeURIComponent (str ''alice'') = Inr (str ''alice'')
   \<and> fetch (answering False (Inl SyntaxError))
        \<lparr>url = str ''/api/submissions?username='' @ str ''alice'', http_method = str ''GET'',
           headers = [], body = None\<rparr> = Inr \<lparr>ok = False, json_body = Inl SyntaxError\<rparr>
   \<and> \<not> ok \<lparr>ok = False, json_body = Inl SyntaxError\<rparr>
   \<and> str ''alice'' \<noteq> [] \<and> str ''secret'' \<noteq> []
   \<and> handleLogin (answering False (Inl SyntaxError)) initial (str ''alice'') (str ''secret'')
       = Fulfilled (initial\<lparr>username := str ''alice'', loggedIn := True\<rparr>)"
proof -
  have h2: "fetch (answering False (Inl SyntaxError))
        \<lparr>url = str ''/api/submissions?username='' @ str ''alice'', http_method = str ''GET'',
           headers = [], body = None\<rparr> = Inr \<lparr>ok = False, json_body = Inl SyntaxError\<rparr>"
    by (simp add: answering_simps)
  have h3: "\<not> ok \<lparr>ok = False, json_body = Inl SyntaxError\<rparr>" by simp
  have h4: "str ''alice'' \<noteq> []" and h5: "str ''secret'' \<noteq> []"
    by (simp_all add: str_eq_Nil)
  from fetchSubmissions_bad_status [OF encodeURIComponent_alice h2 h3 h4 h5, of initial]
    encodeURIComponent_alice h2 h4 h5
  show ?thesis by (simp add: initial_def)
qed

text \<open>
  Claim C5 on \<^verbatim>\<open>src/App.jsx\<close>: with the network down, a login with a username and a
  password leaves the session anonymous and the earlier error message in place; only the
  username has been set.
\<close>

theorem handleLogin_stays_anonymous:
  "settled (handleLogin offline
       (initial\<lparr>loginError := str ''Username and password are required''\<rparr>)
       (str ''alice'') (str ''secret''))
     = initial\<lparr>loginError := str ''Username and password are required'',
         username := str ''alice''\<rparr>
   \<and> \<not> loggedIn (settled (handleLogin offline
       (initial\<lparr>loginError := str ''Username and password are required''\<rparr>)
       (str ''alice'') (str ''secret'')))"
  by (simp add: fetchSubmissions_def handleLogin_def encodeURIComponent_alice offline_simps
      str_eq_Nil initial_def)

text \<open>
  A login with a username and a password: in \<^verbatim>\<open>unnamed/part_000\<close> and
  \<^verbatim>\<open>unnamed/part_001\<close> it always ends authenticated, with the list the store adapter
  read and the error cleared; in \<^verbatim>\<open>src/App.jsx\<close> it does so exactly when
  \<^verbatim>\<open>fetchSubmissions\<close> returns.
\<close>

theorem handleLogin_authenticates:
  assumes "user \<noteq> []" and "password \<noteq> []"
  shows "handleLogin_p000 pf st0 user password
       = Fulfilled (st0\<lparr>username_p000 := user, submissions := fetchSubmissions_p000 pf user,
                       loggedIn := True, loginError := []\<rparr>)
     \<and> handleLogin_p001 pf ls st1 user password
       = st1\<lparr>auth := \<lparr>auth_username = user, auth_password = password\<rparr>,
              submissions := loadSubmissions pf ls user password,
              loggedIn := True, loginError := []\<rparr>
     \<and> (handleLogin pf st user password
         = (case fetchSubmissions pf user of
              Inl e \<Rightarrow> Rejected e (st\<lparr>username := user\<rparr>)
            | Inr v \<Rightarrow> Fulfilled (st\<lparr>username := user, submissions := v, loggedIn := True,
                                      loginError := []\<rparr>)))"
  using assms by (simp add: handleLogin_def handleLogin_p000_def handleLogin_p001_def)

theorem handleLogin_authenticates_witness:
  "str ''alice'' \<noteq> [] \<and> str ''secret'' \<noteq> []
   \<and> handleLogin_p000 offline
         (initial_p000\<lparr>loginError := str ''Username and password are required''\<rparr>)
         (str ''alice'') (str ''secret'')
       = Fulfilled (initial_p000\<lparr>username_p000 := str ''alice'', loggedIn := True\<rparr>)
   \<and> handleLogin_p001 offline empty_storage
         (initial_p001\<lparr>loginError := str ''Username and password are required''\<rparr>)
         (str ''alice'') (str ''secret'')
       = initial_p001\<lparr>auth := \<lparr>auth_username = str ''alice'', auth_password = str ''secret''\<rparr>,
           loggedIn := True\<rparr>"
proof -
  have h1: "str ''alice'' \<noteq> []" and h2: "str ''secret'' \<noteq> []"
    by (simp_all add: str_eq_Nil)
  have offline_list: "fetchSubmissions_p000 offline (str ''alice'') = JArr []"
    by (simp add: fetchSubmissions_p000_def encodeURIComponent_alice offline_simps)
  have stored_list: "loadSubmissions offline empty_storage (str ''alice'') (str ''secret'') = JArr []"
    by (simp add: loadSubmissions_def loadSubmissions_try_def alice_key getItem_def
        empty_storage_def)
  from handleLogin_authenticates [OF h1 h2, where pf = offline and ls = empty_storage
      and ?st0.0 = "initial_p000\<lparr>loginError := str ''Username and password are required''\<rparr>"
      and ?st1.0 = "initial_p001\<lparr>loginError := str ''Username and password are required''\<rparr>"]
    h1 h2 offline_list stored_list
  show ?thesis by (simp add: initial_p000_def initial_p001_def)
qed

text \<open>
  Claim C9. In both remote variants a response with \<^verbatim>\<open>res.ok\<close> whose body parses as the
  value \<open>v\<close> makes \<open>v\<close> the submission list of the authenticated session, whatever
  \<open>v\<close> is: there is no \<^verbatim>\<open>Array.isArray\<close> on this path, while the list after a login
  of the local variant is always an array. The example logs in against a server that
  answers with an object.
\<close>

theorem login_takes_response_unchecked:
  assumes "user \<noteq> []" and "password \<noteq> []" and "encodeURIComponent user = Inr q"
    and "fetch pf \<lparr>url = str ''/api/submissions?username='' @ q, http_method = str ''GET'',
                    headers = [], body = None\<rparr> = Inr res"
    and "fetch pf \<lparr>url = str ''/api/submissions?username='' @ q, http_method = str ''GET'',
                    headers = API_HEADERS, body = None\<rparr> = Inr res"
    and "ok res" and "json_body res = Inr v"
  shows "fetchSubmissions pf user = Inr v
     \<and> handleLogin pf st user password
       = Fulfilled (st\<lparr>username := user, submissions := v, loggedIn := True, loginError := []\<rparr>)
     \<and> fetchSubmissions_p000 pf user = v
     \<and> handleLogin_p000 pf st0 user password
       = Fulfilled (st0\<lparr>username_p000 := user, submissions := v, loggedIn := True,
                       loginError := []\<rparr>)
     \<and> isArray (submissions (handleLogin_p001 pf ls st1 user password))"
proof -
  have "isArray (loadSubmissions pf ls user password)"
    by (simp add: loadSubmissions_def loadSubmissions_try_def split: sum.splits option.splits)
  with assms show ?thesis
    by (simp add: fetchSubmissions_def handleLogin_def fetchSubmissions_p000_def
        handleLogin_p000_def handleLogin_p001_def)
qed

theorem login_takes_response_unchecked_witness:
  "str ''alice'' \<noteq> [] \<and> str ''secret'' \<noteq> []
   \<and> encodeURIComponent (str ''alice'') = Inr (str ''alice'')
   \<and> fetch (answering True (Inr (JObj [(str ''error'', JStr (str ''busy''))])))
        \<lparr>url = str ''/api/submissions?username='' @ str ''alice'', http_method = str ''GET'',
           headers = [], body = None\<rparr>
       = Inr \<lparr>ok = True, json_body = Inr (JObj [(str ''error'', JStr (str ''busy''))])\<rparr>
   \<and> fetch (answering True (Inr (JObj [(str ''error'', JStr (str ''busy''))])))
        \<lparr>url = str ''/api/submissions?username='' @ str ''alice'', http_method = str ''GET'',
           headers = API_HEADERS, body = None\<rparr>
       = Inr \<lparr>ok = True, json_body = Inr (JObj [(str ''error'', JStr (str ''busy''))])\<rparr>
   \<and> \<not> isArray (JObj [(str ''error'', JStr (str ''busy''))])
   \<and> submissions (settled (handleLogin
          (answering True (Inr (JObj [(str ''error'', JStr (str ''busy''))])))
          initial (str ''alice'') (str ''secret'')))
       = JObj [(str ''error'', JStr (str ''busy''))]
   \<and> submissions (settled (handleLogin_p000
          (answering True (Inr (JObj [(str ''error'', JStr (str ''busy''))])))
          initial_p000 (str ''alice'') (str ''secret'')))
       = JObj [(str ''error'', JStr (str ''busy''))]"
proof -
  let ?v = "JObj [(str ''error'', JStr (str ''busy''))]"
  let ?res = "\<lparr>ok = True, json_body = Inr ?v\<rparr>"
  have h1: "str ''alice'' \<noteq> []" and h2: "str ''secret'' \<noteq> []"
    by (simp_all add: str_eq_Nil)
  have h3: "fetch (answering True (Inr ?v))
        \<lparr>url = str ''/api/submissions?username='' @ str ''alice'', http_method = str ''GET'',
           headers = [], body = None\<rparr> = Inr ?res"
    and h4: "fetch (answering True (Inr ?v))
        \<lparr>url = str ''/api/submissions?username='' @ str ''alice'', http_method = str ''GET'',
           headers = API_HEADERS, body = None\<rparr> = Inr ?res"
    by (simp_all add: answering_simps)
  have h5: "ok ?res" and h6: "json_body ?res = Inr ?v"
    by simp_all
  from login_takes_response_unchecked [OF h1 h2 encodeURIComponent_alice h3 h4 h5 h6,
      where st = initial and ?st0.0 = initial_p000 and ls = empty_storage
        and ?st1.0 = initial_p001]
    h1 h2 h3 h4 encodeURIComponent_alice
  show ?thesis by simp
qed

text \<open>
  Claim C10. Whatever iterable the in-memory list is, the submit handler of every variant
  appends one element to its elements: the object with exactly the keys \<^verbatim>\<open>name\<close>,
  \<^verbatim>\<open>email\<close>, \<^verbatim>\<open>phone\<close>, \<^verbatim>\<open>address\<close> and \<^verbatim>\<open>message\<close> of the form. The username of
  the session enters only the request that the remote variants hand to \<^verbatim>\<open>fetch\<close>, whose
  body is the text of the object with \<^verbatim>\<open>username\<close> before these five keys:
  \<^verbatim>\<open>src/App.jsx\<close> appends when this request is answered and is rejected, appending
  nothing, when it raises; \<^verbatim>\<open>unnamed/part_000\<close> appends and sends it. The local variant
  hands the new list and the credentials to \<^verbatim>\<open>saveSubmissions\<close>, and where the storage
  takes the write, the item under the key of the credentials is the text of the list
  itself. A list that is not iterable gets nothing appended in any variant.
\<close>

theorem appended_record_is_formData:
  "(\<forall>xs. spread (submissions st) = Inr xs \<longrightarrow>
      handleFormSubmit pf st d
        = (case fetch pf \<lparr>url = str ''/api/submissions'', http_method = str ''POST'',
                   headers = [(str ''Content-Type'', str ''application/json'')],
                   body = Some (JSON_stringify pf
                     (JObj [(str ''username'', JStr (username st)),
                            (str ''name'', JStr (name d)), (str ''email'', JStr (email d)),
                            (str ''phone'', JStr (phone d)), (str ''address'', JStr (address d)),
                            (str ''message'', JStr (message d))]))\<rparr> of
             Inl e \<Rightarrow> Rejected e st
           | Inr res \<Rightarrow>
               Fulfilled (st\<lparr>submissions := JArr (xs @
                 [JObj [(str ''name'', JStr (name d)), (str ''email'', JStr (email d)),
                        (str ''phone'', JStr (phone d)), (str ''address'', JStr (address d)),
                        (str ''message'', JStr (message d))]])\<rparr>)))
   \<and> (\<forall>xs. spread (submissions st0) = Inr xs \<longrightarrow>
      handleFormSubmit_p000 pf st0 d
        = (Fulfilled (st0\<lparr>submissions := JArr (xs @
             [JObj [(str ''name'', JStr (name d)), (str ''email'', JStr (email d)),
                    (str ''phone'', JStr (phone d)), (str ''address'', JStr (address d)),
                    (str ''message'', JStr (message d))]])\<rparr>),
           [\<lparr>url = str ''/api/submissions'', http_method = str ''POST'',
              headers = API_HEADERS,
              body = Some (JSON_stringify pf
                (JObj [(str ''username'', JStr (username_p000 st0)),
                       (str ''name'', JStr (name d)), (str ''email'', JStr (email d)),
                       (str ''phone'', JStr (phone d)), (str ''address'', JStr (address d)),
                       (str ''message'', JStr (message d))]))\<rparr>]))
   \<and> (\<forall>xs. spread (submissions st1) = Inr xs \<longrightarrow>
      handleFormSubmit_p001 pf ls st1 d
        = Inr (st1\<lparr>submissions := JArr (xs @
             [JObj [(str ''name'', JStr (name d)), (str ''email'', JStr (email d)),
                    (str ''phone'', JStr (phone d)), (str ''address'', JStr (address d)),
                    (str ''message'', JStr (message d))]])\<rparr>,
               saveSubmissions pf ls (auth_username (auth st1)) (auth_password (auth st1))
                 (JArr (xs @
             [JObj [(str ''name'', JStr (name d)), (str ''email'', JStr (email d)),
                    (str ''phone'', JStr (phone d)), (str ''address'', JStr (address d)),
                    (str ''message'', JStr (message d))]]))))
   \<and> (\<forall>xs k. spread (submissions st1) = Inr xs
        \<and> getSubmissionsStorageKey pf (auth_username (auth st1)) (auth_password (auth st1)) = Inr k
        \<and> \<not> blocked ls
        \<and> \<not> full ls k (JSON_stringify pf (JArr (xs @
             [JObj [(str ''name'', JStr (name d)), (str ''email'', JStr (email d)),
                    (str ''phone'', JStr (phone d)), (str ''address'', JStr (address d)),
                    (str ''message'', JStr (message d))]])))
      \<longrightarrow> (\<exists>st' ls'. handleFormSubmit_p001 pf ls st1 d = Inr (st', ls')
            \<and> items ls' k = Some (JSON_stringify pf (JArr (xs @
             [JObj [(str ''name'', JStr (name d)), (str ''email'', JStr (email d)),
                    (str ''phone'', JStr (phone d)), (str ''address'', JStr (address d)),
                    (str ''message'', JStr (message d))]])))))
   \<and> (\<forall>e. spread (submissions st) = Inl e \<longrightarrow>
        submissions (settled (handleFormSubmit pf st d)) = submissions st)
   \<and> (\<forall>e. spread (submissions st0) = Inl e \<longrightarrow>
        handleFormSubmit_p000 pf st0 d = (Rejected e st0, []))
   \<and> (\<forall>e. spread (submissions st1) = Inl e \<longrightarrow> handleFormSubmit_p001 pf ls st1 d = Inl e)"
proof (intro conjI allI impI)
  fix xs assume "spread (submissions st) = Inr xs"
  then show "handleFormSubmit pf st d
        = (case fetch pf \<lparr>url = str ''/api/submissions'', http_method = str ''POST'',
                   headers = [(str ''Content-Type'', str ''application/json'')],
                   body = Some (JSON_stringify pf
                     (JObj [(str ''username'', JStr (username st)),
                            (str ''name'', JStr (name d)), (str ''email'', JStr (email d)),
                            (str ''phone'', JStr (phone d)), (str ''address'', JStr (address d)),
                            (str ''message'', JStr (message d))]))\<rparr> of
             Inl e \<Rightarrow> Rejected e st
           | Inr res \<Rightarrow>
               Fulfilled (st\<lparr>submissions := JArr (xs @
                 [JObj [(str ''name'', JStr (name d)), (str ''email'', JStr (email d)),
                        (str ''phone'', JStr (phone d)), (str ''address'', JStr (address d)),
                        (str ''message'', JStr (message d))]])\<rparr>))"
    by (simp add: handleFormSubmit_def postSubmission_def payload_def obj_def entries_def
        split: sum.splits)
next
  fix xs assume "spread (submissions st0) = Inr xs"
  then show "handleFormSubmit_p000 pf st0 d
        = (Fulfilled (st0\<lparr>submissions := JArr (xs @
             [JObj [(str ''name'', JStr (name d)), (str ''email'', JStr (email d)),
                    (str ''phone'', JStr (phone d)), (str ''address'', JStr (address d)),
                    (str ''message'', JStr (message d))]])\<rparr>),
           [\<lparr>url = str ''/api/submissions'', http_method = str ''POST'',
              headers = API_HEADERS,
              body = Some (JSON_stringify pf
                (JObj [(str ''username'', JStr (username_p000 st0)),
                       (str ''name'', JStr (name d)), (str ''email'', JStr (email d)),
                       (str ''phone'', JStr (phone d)), (str ''address'', JStr (address d)),
                       (str ''message'', JStr (message d))]))\<rparr>])"
    by (simp add: handleFormSubmit_p000_def postSubmission_p000_def payload_def obj_def
        entries_def Let_def split: sum.splits)
next
  fix xs assume "spread (submissions st1) = Inr xs"
  then show "handleFormSubmit_p001 pf ls st1 d
        = Inr (st1\<lparr>submissions := JArr (xs @
             [JObj [(str ''name'', JStr (name d)), (str ''email'', JStr (email d)),
                    (str ''phone'', JStr (phone d)), (str ''address'', JStr (address d)),
                    (str ''message'', JStr (message d))]])\<rparr>,
               saveSubmissions pf ls (auth_username (auth st1)) (auth_password (auth st1))
                 (JArr (xs @
             [JObj [(str ''name'', JStr (name d)), (str ''email'', JStr (email d)),
                    (str ''phone'', JStr (phone d)), (str ''address'', JStr (address d)),
                    (str ''message'', JStr (message d))]])))"
    by (simp add: handleFormSubmit_p001_def obj_def entries_def Let_def)
next
  fix xs k
  let ?text = "JSON_stringify pf (JArr (xs @
             [JObj [(str ''name'', JStr (name d)), (str ''email'', JStr (email d)),
                    (str ''phone'', JStr (phone d)), (str ''address'', JStr (address d)),
                    (str ''message'', JStr (message d))]]))"
  assume a: "spread (submissions st1) = Inr xs
        \<and> getSubmissionsStorageKey pf (auth_username (auth st1)) (auth_password (auth st1)) = Inr k
        \<and> \<not> blocked ls \<and> \<not> full ls k ?text"
  then have "setItem ls k ?text = Inr (ls\<lparr>items := (items ls)(k \<mapsto> ?text)\<rparr>)"
    by (simp add: setItem_def)
  with a show "\<exists>st' ls'. handleFormSubmit_p001 pf ls st1 d = Inr (st', ls')
      \<and> items ls' k = Some ?text"
    by (simp add: handleFormSubmit_p001_def obj_def entries_def Let_def saveSubmissions_def
        saveSubmissions_try_def)
next
  fix e assume "spread (submissions st) = Inl e"
  then show "submissions (settled (handleFormSubmit pf st d)) = submissions st"
    by (simp add: handleFormSubmit_def split: sum.splits)
next
  fix e assume "spread (submissions st0) = Inl e"
  then show "handleFormSubmit_p000 pf st0 d = (Rejected e st0, [])"
    by (simp add: handleFormSubmit_p000_def)
next
  fix e assume "spread (submissions st1) = Inl e"
  then show "handleFormSubmit_p001 pf ls st1 d = Inl e"
    by (simp add: handleFormSubmit_p001_def)
qed


theorem appended_record_is_formData_witness:
  "spread (submissions alice_session) = Inr []
   \<and> handleFormSubmit (answering True (Inr JNull)) alice_session bob
       = Fulfilled (alice_session\<lparr>submissions := JArr
            [JObj [(str ''name'', JStr (str ''Bob'')), (str ''email'', JStr (str ''b@x.com'')),
                   (str ''phone'', JStr (str ''555'')), (str ''address'', JStr (str ''1 Rd'')),
                   (str ''message'', JStr (str ''hi''))]]\<rparr>)
   \<and> spread (submissions (alice_session_p000\<lparr>submissions := JStr (str ''ok'')\<rparr>))
       = Inr [JStr (str ''o''), JStr (str ''k'')]
   \<and> handleFormSubmit_p000 (answering True (Inr JNull))
         (alice_session_p000\<lparr>submissions := JStr (str ''ok'')\<rparr>) bob
       = (Fulfilled (alice_session_p000\<lparr>submissions := JArr
            [JStr (str ''o''), JStr (str ''k''),
             JObj [(str ''name'', JStr (str ''Bob'')), (str ''email'', JStr (str ''b@x.com'')),
                   (str ''phone'', JStr (str ''555'')), (str ''address'', JStr (str ''1 Rd'')),
                   (str ''message'', JStr (str ''hi''))]]\<rparr>),
          [\<lparr>url = str ''/api/submissions'', http_method = str ''POST'',
             headers = API_HEADERS,
             body = Some (small_stringify
               (JObj [(str ''username'', JStr (str ''alice'')),
                      (str ''name'', JStr (str ''Bob'')), (str ''email'', JStr (str ''b@x.com'')),
                      (str ''phone'', JStr (str ''555'')), (str ''address'', JStr (str ''1 Rd'')),
                      (str ''message'', JStr (str ''hi''))]))\<rparr>])
   \<and> spread (submissions alice_session_p001) = Inr []
   \<and> getSubmissionsStorageKey (answering True (Inr JNull)) (str ''alice'') (str ''secret'')
       = Inr (str ''submissions:YWxpY2UAc2VjcmV0'')
   \<and> \<not> blocked empty_storage
   \<and> handleFormSubmit_p001 (answering True (Inr JNull)) empty_storage alice_session_p001 bob
       = Inr (alice_session_p001\<lparr>submissions := JArr
            [JObj [(str ''name'', JStr (str ''Bob'')), (str ''email'', JStr (str ''b@x.com'')),
                   (str ''phone'', JStr (str ''555'')), (str ''address'', JStr (str ''1 Rd'')),
                   (str ''message'', JStr (str ''hi''))]]\<rparr>,
              empty_storage\<lparr>items := [str ''submissions:YWxpY2UAc2VjcmV0'' \<mapsto>
                small_stringify (JArr
            [JObj [(str ''name'', JStr (str ''Bob'')), (str ''email'', JStr (str ''b@x.com'')),
                   (str ''phone'', JStr (str ''555'')), (str ''address'', JStr (str ''1 Rd'')),
                   (str ''message'', JStr (str ''hi''))]])]\<rparr>)"
proof -
  let ?pf = "answering True (Inr JNull)"
  let ?st0 = "alice_session_p000\<lparr>submissions := JStr (str ''ok'')\<rparr>"
  let ?bob = "JObj [(str ''name'', JStr (str ''Bob'')), (str ''email'', JStr (str ''b@x.com'')),
                   (str ''phone'', JStr (str ''555'')), (str ''address'', JStr (str ''1 Rd'')),
                   (str ''message'', JStr (str ''hi''))]"
  have s: "spread (submissions alice_session) = Inr []"
    and s1: "spread (submissions alice_session_p001) = Inr []"
    by (simp_all add: alice_session_def initial_def alice_session_p001_def initial_p001_def)
  have s0: "spread (submissions ?st0) = Inr [JStr (str ''o''), JStr (str ''k'')]"
    by (simp add: str_def high_surrogate_def)
  have key: "getSubmissionsStorageKey ?pf (str ''alice'') (str ''secret'')
       = Inr (str ''submissions:YWxpY2UAc2VjcmV0'')"
    using alice_key getSubmissionsStorageKey_platform [of ?pf offline]
    by (simp add: answering_simps offline_simps)
  have names: "username alice_session = str ''alice''"
    "username_p000 ?st0 = str ''alice''"
    "auth_username (auth alice_session_p001) = str ''alice''"
    "auth_password (auth alice_session_p001) = str ''secret''"
    by (simp_all add: alice_session_def alice_session_p000_def alice_session_p001_def)
  have fields: "name bob = str ''Bob''" "email bob = str ''b@x.com''" "phone bob = str ''555''"
    "address bob = str ''1 Rd''" "message bob = str ''hi''"
    by (simp_all add: bob_def)
  have stored: "saveSubmissions ?pf empty_storage (str ''alice'') (str ''secret'') (JArr [?bob])
      = empty_storage\<lparr>items := [str ''submissions:YWxpY2UAc2VjcmV0'' \<mapsto>
          small_stringify (JArr [?bob])]\<rparr>"
    by (simp only: saveSubmissions_def saveSubmissions_try_def key)
      (simp add: setItem_def empty_storage_def answering_simps)
  note t = appended_record_is_formData [where pf = ?pf and st = alice_session
      and ?st0.0 = ?st0 and ?st1.0 = alice_session_p001 and ls = empty_storage and d = bob]
  from t s have "handleFormSubmit ?pf alice_session bob
      = Fulfilled (alice_session\<lparr>submissions := JArr [?bob]\<rparr>)"
    by (simp add: names fields answering_simps)
  moreover from t s0 have "handleFormSubmit_p000 ?pf ?st0 bob
      = (Fulfilled (alice_session_p000\<lparr>submissions :=
           JArr [JStr (str ''o''), JStr (str ''k''), ?bob]\<rparr>),
         [\<lparr>url = str ''/api/submissions'', http_method = str ''POST'',
            headers = API_HEADERS,
            body = Some (small_stringify
              (JObj [(str ''username'', JStr (str ''alice'')),
                     (str ''name'', JStr (str ''Bob'')), (str ''email'', JStr (str ''b@x.com'')),
                     (str ''phone'', JStr (str ''555'')), (str ''address'', JStr (str ''1 Rd'')),
                     (str ''message'', JStr (str ''hi''))]))\<rparr>])"
    by (simp add: names fields answering_simps)
  moreover from t s1 have "handleFormSubmit_p001 ?pf empty_storage alice_session_p001 bob
      = Inr (alice_session_p001\<lparr>submissions := JArr [?bob]\<rparr>,
             empty_storage\<lparr>items := [str ''submissions:YWxpY2UAc2VjcmV0'' \<mapsto>
               small_stringify (JArr [?bob])]\<rparr>)"
    by (simp add: names fields stored)
  moreover have "\<not> blocked empty_storage" by (simp add: empty_storage_def)
  ultimately show ?thesis using s s0 s1 key by simp
qed

text \<open>
  Claim C2 on \<^verbatim>\<open>src/App.jsx\<close>, where the handler awaits \<^verbatim>\<open>postSubmission\<close> before it
  appends and nothing catches what \<^verbatim>\<open>fetch\<close> raises: with the network down the handler
  is rejected and the record is not appended, while the same submission with a server
  behind it is appended.
\<close>

theorem handleFormSubmit_raises:
  "handleFormSubmit offline alice_session bob = Rejected TypeError alice_session
   \<and> submissions (settled (handleFormSubmit offline alice_session bob)) = JArr []
   \<and> submissions (settled (handleFormSubmit (answering True (Inr JNull)) alice_session bob))
       = JArr [obj bob]"
  by (simp add: handleFormSubmit_def postSubmission_def offline_simps answering_simps
      alice_session_def initial_def)

text \<open>
  In \<^verbatim>\<open>unnamed/part_000\<close> the outcome of a submission does not depend on the platform,
  hence not on whether the request failed (the request sent does: its body is written by
  the platform's \<^verbatim>\<open>JSON.stringify\<close>).
\<close>

theorem handleFormSubmit_p000_ignores_network:
  "fst (handleFormSubmit_p000 pf st data) = fst (handleFormSubmit_p000 pf' st data)"
  by (simp add: handleFormSubmit_p000_def split: sum.splits)

text \<open>
  Claim C7 on \<^verbatim>\<open>src/App.jsx\<close>: of two submissions, the first made while the network is
  down, only the second is in the list.
\<close>

theorem submit_each_loses_record:
  "submissions (submit_each alice_session [(offline, bob), (answering True (Inr JNull), carol)])
     = JArr [obj carol]
   \<and> JArr [obj carol] \<noteq> JArr [obj bob, obj carol]"
  by (simp add: handleFormSubmit_def postSubmission_def offline_simps answering_simps
      alice_session_def initial_def)

text \<open>
  Runs of submissions. In \<^verbatim>\<open>unnamed/part_000\<close> and \<^verbatim>\<open>unnamed/part_001\<close> the list after
  the run is the list before it followed by the submitted records in order; in
  \<^verbatim>\<open>src/App.jsx\<close> this holds for a run in which no request raised.
\<close>

lemma handleFormSubmit_p000_array:
  "submissions st = JArr xs \<Longrightarrow>
   settled (fst (handleFormSubmit_p000 pf st data))
     = st\<lparr>submissions := JArr (xs @ [obj data])\<rparr>"
  by (simp add: handleFormSubmit_p000_def)

lemma submit_each_p000_appends:
  "submissions st = JArr xs \<Longrightarrow>
   submissions (submit_each_p000 st events) = JArr (xs @ map (\<lambda>(pf, data). obj data) events)"
proof (induction events arbitrary: st xs)
  case Nil
  then show ?case by simp
next
  case (Cons event events)
  obtain pf data where event: "event = (pf, data)" by (cases event)
  from Cons.prems have "submissions (settled (fst (handleFormSubmit_p000 pf st data)))
      = JArr (xs @ [obj data])"
    by (simp add: handleFormSubmit_p000_array)
  then have "submissions
      (submit_each_p000 (settled (fst (handleFormSubmit_p000 pf st data))) events)
      = JArr ((xs @ [obj data]) @ map (\<lambda>(pf, data). obj data) events)"
    by (rule Cons.IH)
  with event show ?case by simp
qed

lemma submit_each_p001_appends:
  "submissions st = JArr xs \<Longrightarrow>
   submissions (fst (submit_each_p001 pf (st, ls) records)) = JArr (xs @ map obj records)"
proof (induction records arbitrary: st ls xs)
  case Nil
  then show ?case by simp
next
  case (Cons data records)
  let ?next = "JArr (xs @ [obj data])"
  let ?ls = "saveSubmissions pf ls (auth_username (auth st)) (auth_password (auth st)) ?next"
  from Cons.prems have step: "handleFormSubmit_p001 pf ls st data
      = Inr (st\<lparr>submissions := ?next\<rparr>, ?ls)"
    by (simp add: handleFormSubmit_p001_def Let_def)
  have "submissions (st\<lparr>submissions := ?next\<rparr>) = JArr (xs @ [obj data])"
    by simp
  then have "submissions (fst (submit_each_p001 pf (st\<lparr>submissions := ?next\<rparr>, ?ls) records))
      = JArr ((xs @ [obj data]) @ map obj records)"
    by (rule Cons.IH)
  with step show ?case by simp
qed

lemma submit_each_appends_when_posted:
  "submissions st = JArr xs \<Longrightarrow>
   list_all (\<lambda>(pf, data). postSubmission pf (username st) data = Inr ()) events \<Longrightarrow>
   submissions (submit_each st events) = JArr (xs @ map (\<lambda>(pf, data). obj data) events)"
proof (induction events arbitrary: st xs)
  case Nil
  then show ?case by simp
next
  case (Cons event events)
  obtain pf data where event: "event = (pf, data)" by (cases event)
  let ?st = "st\<lparr>submissions := JArr (xs @ [obj data])\<rparr>"
  from Cons.prems event have step: "settled (handleFormSubmit pf st data) = ?st"
    by (simp add: handleFormSubmit_def)
  from Cons.prems event
  have "list_all (\<lambda>(pf, data). postSubmission pf (username ?st) data = Inr ()) events"
    by simp
  moreover have "submissions ?st = JArr (xs @ [obj data])" by simp
  ultimately have "submissions (submit_each ?st events)
      = JArr ((xs @ [obj data]) @ map (\<lambda>(pf, data). obj data) events)"
    by (rule Cons.IH [rotated])
  with event step show ?case by simp
qed

theorem submissions_append_only:
  assumes "submissions st0 = JArr xs" and "submissions st1 = JArr ys"
    and "submissions st = JArr zs"
    and "list_all (\<lambda>(pf, data). postSubmission pf (username st) data = Inr ()) posted"
  shows "submissions (submit_each_p000 st0 events)
       = JArr (xs @ map (\<lambda>(pf, data). obj data) events)
     \<and> submissions (fst (submit_each_p001 pf (st1, ls) records)) = JArr (ys @ map obj records)
     \<and> submissions (submit_each st posted) = JArr (zs @ map (\<lambda>(pf, data). obj data) posted)"
  using assms
  by (simp add: submit_each_p000_appends submit_each_p001_appends submit_each_appends_when_posted)

theorem submissions_append_only_witness:
  "submissions initial_p000 = JArr [] \<and> submissions initial_p001 = JArr []
   \<and> submissions alice_session = JArr []
   \<and> list_all (\<lambda>(pf, data). postSubmission pf (username alice_session) data = Inr ())
        [(answering True (Inr JNull), bob), (answering False (Inr JNull), carol)]
   \<and> submissions (submit_each_p000 initial_p000 [(offline, bob), (answering True (Inr JNull), carol)])
       = JArr [obj bob, obj carol]
   \<and> submissions (fst (submit_each_p001 offline (initial_p001, empty_storage) [bob, carol]))
       = JArr [obj bob, obj carol]
   \<and> submissions (submit_each alice_session
        [(answering True (Inr JNull), bob), (answering False (Inr JNull), carol)])
       = JArr [obj bob, obj carol]"
proof -
  have h1: "submissions initial_p000 = JArr []" and h2: "submissions initial_p001 = JArr []"
    and h3: "submissions alice_session = JArr []"
    by (simp_all add: alice_session_def initial_def initial_p000_def initial_p001_def)
  have h4: "list_all (\<lambda>(pf, data). postSubmission pf (username alice_session) data = Inr ())
        [(answering True (Inr JNull), bob), (answering False (Inr JNull), carol)]"
    by (simp add: postSubmission_def answering_simps)
  from submissions_append_only [OF h1 h2 h3 h4,
      where events = "[(offline, bob), (answering True (Inr JNull), carol)]"
        and records = "[bob, carol]" and pf = offline and ls = empty_storage]
    h1 h2 h3 h4
  show ?thesis by simp
qed

end
